theory Spec2Isabelle
  imports Main "HOL-Library.Sublist" "HOL-Library.AList"
begin

section \<open>Strings of the host language\<close>

text \<open>
  A string is a list of 8-bit characters; text outside ASCII is its UTF-8 byte sequence
  (the pictographs of the prompt text below).  \<open>toUpperCase\<close> maps the letters a-z to A-Z
  and leaves every other character alone, which is what the host's \<open>toUpperCase\<close> does on
  ASCII text and on the pictographs.  On text with other characters the host differs: it
  upper-cases every cased letter, it counts in 16-bit units and its line terminators include
  two characters outside ASCII.  So a statement that rests on what \<open>toUpperCase\<close> or the
  matcher computes carries the hypothesis that the text it reads is \<open>ascii\<close>.
\<close>

definition asciiChar :: "char \<Rightarrow> bool" where
  "asciiChar c = (\<not> digit7 c)"

definition ascii :: "string \<Rightarrow> bool" where
  "ascii s = list_all asciiChar s"

definition lowerLetters :: string where
  "lowerLetters = ''abcdefghijklmnopqrstuvwxyz''"

definition upperLetters :: string where
  "upperLetters = ''ABCDEFGHIJKLMNOPQRSTUVWXYZ''"

definition toUpperCaseChar :: "char \<Rightarrow> char" where
  "toUpperCaseChar c =
     (case map_of (zip lowerLetters upperLetters) c of Some u \<Rightarrow> u | None \<Rightarrow> c)"

definition toUpperCase :: "string \<Rightarrow> string" where
  "toUpperCase s = map toUpperCaseChar s"

text \<open>\<open>Array.prototype.join\<close> (and \<open>toString\<close> of an array of strings, which joins with a comma).\<close>

fun js_join :: "string \<Rightarrow> string list \<Rightarrow> string" where
  "js_join sep [] = []"
| "js_join sep [x] = x"
| "js_join sep (x # y # ys) = x @ sep @ js_join sep (y # ys)"

text \<open>\<open>String.prototype.split\<close> with a one-character separator: the empty string splits to \<open>[""]\<close>.\<close>

fun js_split :: "char \<Rightarrow> string \<Rightarrow> string list" where
  "js_split c [] = [[]]"
| "js_split c (x # xs) =
     (if x = c then [] # js_split c xs
      else (case js_split c xs of [] \<Rightarrow> [[x]] | y # ys \<Rightarrow> (x # y) # ys))"


section \<open>Regular expressions of the host language\<close>

text \<open>
  Both \<open>String.prototype.match\<close> with a string argument and \<open>new RegExp\<close> compile their
  argument as a pattern.  The model covers the fragment of the pattern language built from
  pattern characters, \<open>.\<close>, groups, alternation and the greedy quantifiers \<open>*\<close>, \<open>+\<close>, \<open>?\<close>.
  A pattern that uses anything else (escapes, classes, braces, anchors, \<open>(?\<close> groups, lazy
  quantifiers) is answered by \<open>Unmodelled\<close>: the model then says nothing about the host,
  which compiles such a pattern.  So a statement about a pattern that is not fixed carries
  the hypothesis that the pattern lies in the fragment.
\<close>

datatype exn = SyntaxError | TypeError | TagColorNotHex | Unmodelled

datatype regex = Empty | Chr char | Dot | Seq regex regex | Alt regex regex
  | Group regex | Star regex | Plus regex | Opt regex

fun mkSeq :: "regex list \<Rightarrow> regex" where
  "mkSeq [] = Empty"
| "mkSeq [r] = r"
| "mkSeq (r # q # rs) = Seq r (mkSeq (q # rs))"

fun mkAlt :: "regex list \<Rightarrow> regex" where
  "mkAlt [] = Empty"
| "mkAlt [r] = r"
| "mkAlt (r # q # rs) = Alt r (mkAlt (q # rs))"

text \<open>
  The parser reads the pattern left to right.  A frame holds the finished alternatives of the
  disjunction being read and the terms of its current alternative, both latest first; the
  stack holds the frames of the enclosing groups.
\<close>

type_synonym frame = "regex list \<times> regex list"

definition close :: "frame \<Rightarrow> regex" where
  "close fr = mkAlt (rev (mkSeq (rev (snd fr)) # fst fr))"

fun quantified :: "regex \<Rightarrow> bool" where
  "quantified (Star r) = True"
| "quantified (Plus r) = True"
| "quantified (Opt r) = True"
| "quantified r = False"

definition quantify :: "char \<Rightarrow> regex \<Rightarrow> regex" where
  "quantify c r = (if c = CHR ''*'' then Star r else if c = CHR ''+'' then Plus r else Opt r)"

fun parse :: "string \<Rightarrow> frame list \<Rightarrow> frame \<Rightarrow> exn + regex" where
  "parse [] st fr = (if st = [] then Inr (close fr) else Inl SyntaxError)"
| "parse (c # cs) st fr =
     (if c = CHR ''('' then parse cs (fr # st) ([], [])
      else if c = CHR '')'' then
        (case st of
           [] \<Rightarrow> Inl SyntaxError
         | up # st' \<Rightarrow> parse cs st' (fst up, Group (close fr) # snd up))
      else if c = CHR ''|'' then parse cs st (mkSeq (rev (snd fr)) # fst fr, [])
      else if c = CHR ''*'' \<or> c = CHR ''+'' \<or> c = CHR ''?'' then
        (case snd fr of
           [] \<Rightarrow> Inl SyntaxError
         | t # ts \<Rightarrow>
             if quantified t then Inl SyntaxError
             else parse cs st (fst fr, quantify c t # ts))
      else if c = CHR ''.'' then parse cs st (fst fr, Dot # snd fr)
      else parse cs st (fst fr, Chr c # snd fr))"

definition unmodelledChars :: string where
  "unmodelledChars = [CHR 0x5C] @ ''[]{}^$''"

definition unmodelled :: "string \<Rightarrow> bool" where
  "unmodelled p =
     ((\<exists>c \<in> set p. c \<in> set unmodelledChars) \<or> sublist ''(?'' p \<or>
      sublist ''*?'' p \<or> sublist ''+?'' p \<or> sublist ''??'' p)"

text \<open>A pattern character stands for itself in a pattern of the fragment.\<close>

definition patternChar :: "char \<Rightarrow> bool" where
  "patternChar c = (c \<notin> set (''.*+?()|'' @ unmodelledChars))"

definition new_RegExp :: "string \<Rightarrow> exn + regex" where
  "new_RegExp p = (if unmodelled p then Inl Unmodelled else parse p [] ([], []))"

text \<open>
  The matcher: \<open>ends r s\<close> lists what is left of \<open>s\<close> after each way of matching \<open>r\<close> at its
  start, in the order in which the host's backtracking matcher tries them: the alternatives
  from left to right, a quantifier taking as many iterations as it can first.  An iteration
  of \<open>*\<close> or \<open>?\<close> that consumes nothing is rejected, as the host does; the first
  iteration of \<open>+\<close> may consume nothing.  Groups only capture, and nothing read here looks
  at a capture.
\<close>

fun rsize :: "regex \<Rightarrow> nat" where
  "rsize Empty = 0"
| "rsize (Chr c) = 0"
| "rsize Dot = 0"
| "rsize (Seq a b) = Suc (rsize a + rsize b)"
| "rsize (Alt a b) = Suc (rsize a + rsize b)"
| "rsize (Group a) = Suc (rsize a)"
| "rsize (Star a) = Suc (rsize a)"
| "rsize (Plus a) = Suc (Suc (rsize a))"
| "rsize (Opt a) = Suc (rsize a)"

definition lineTerminator :: "char \<Rightarrow> bool" where
  "lineTerminator c = (c = CHR 0x0A \<or> c = CHR 0x0D)"

function ends :: "regex \<Rightarrow> string \<Rightarrow> string list" where
  "ends Empty s = [s]"
| "ends (Chr c) s = (case s of [] \<Rightarrow> [] | x # xs \<Rightarrow> if x = c then [xs] else [])"
| "ends Dot s = (case s of [] \<Rightarrow> [] | x # xs \<Rightarrow> if lineTerminator x then [] else [xs])"
| "ends (Seq a b) s = concat (map (ends b) (ends a s))"
| "ends (Alt a b) s = ends a s @ ends b s"
| "ends (Group a) s = ends a s"
| "ends (Star a) s =
     concat (map (\<lambda>e. if length e < length s then ends (Star a) e else []) (ends a s)) @ [s]"
| "ends (Plus a) s = concat (map (ends (Star a)) (ends a s))"
| "ends (Opt a) s = filter (\<lambda>e. length e < length s) (ends a s) @ [s]"
  by pat_completeness auto
termination
  by (relation "(\<lambda>(r, s). rsize r) <*mlex*> measure (\<lambda>(r, s). length s)")
     (auto simp: wf_mlex mlex_less mlex_leq)

declare ends.simps(7) [simp del]

text \<open>A pattern without the global flag: is there a match starting anywhere in \<open>s\<close>?\<close>

fun test :: "regex \<Rightarrow> string \<Rightarrow> bool" where
  "test r [] = (ends r [] \<noteq> [])"
| "test r (x # xs) = (ends r (x # xs) \<noteq> [] \<or> test r xs)"




section \<open>The world around the facade\<close>

text \<open>
  The facade never looks into a message or an extra argument: \<open>JOther n\<close> stands for any
  value that is not a string.  The callback is a function of the embedding application,
  known by a handle; a call to it is recorded, and what it does is its own business.
\<close>

datatype jsval = JUndefined | JNull | JString string | JOther nat

datatype event =
    ConsoleLog jsval
  | ConsoleGroupCollapsed string string jsval "jsval list"
  | ConsoleInfoTrace
  | ConsoleGroupEnd
  | CallbackCall nat string jsval
  | Prompt string
  | Alert string
  | SetItem string string
  | Reload
  | SetWindowVerbose

text \<open>
  \<open>localStorage\<close> is the key-value substrate, \<open>inputs\<close> the operator's pending answers to
  \<open>prompt\<close> (\<open>None\<close> is a dismissed dialog, and so is a prompt with no answer left), and
  \<open>trace\<close> records every call made to a collaborator, oldest first.
\<close>

record world =
  localStorage :: "string \<rightharpoonup> string"
  inputs :: "string option list"
  trace :: "event list"

definition emit :: "event \<Rightarrow> world \<Rightarrow> world" where
  "emit e w = w\<lparr>trace := trace w @ [e]\<rparr>"

definition getItem :: "string \<Rightarrow> world \<Rightarrow> string option" where
  "getItem k w = localStorage w k"

definition setItem :: "string \<Rightarrow> string \<Rightarrow> world \<Rightarrow> world" where
  "setItem k v w = emit (SetItem k v) (w\<lparr>localStorage := (localStorage w)(k \<mapsto> v)\<rparr>)"

definition prompt :: "string \<Rightarrow> world \<Rightarrow> string option \<times> world" where
  "prompt m w =
     (case inputs w of
        [] \<Rightarrow> (None, emit (Prompt m) w)
      | a # as \<Rightarrow> (a, emit (Prompt m) (w\<lparr>inputs := as\<rparr>)))"

section \<open>The facade\<close>

record tag =
  displayName :: string
  color :: string

text \<open>
  The tags object maps a display name to the function made for that tag; the function is
  the closure over the tag, so the tag stands for it.  Own properties are kept in insertion
  order.
\<close>

type_synonym tagFunctions = "(string \<times> tag) list"

record consoler =
  password :: string
  callbackFunction :: "nat option"
  verboseMode :: "string list option"
  isDevelopment :: bool
  isDebugModeEnable :: bool
  tags :: "tagFunctions option"

text \<open>
  A method returns a value or throws; either way the facade and the world are as the method
  left them.  \<open>verboseMode\<close> is optional because construction can leave it undefined.
\<close>

datatype 'a outcome = Returns 'a consoler world | Throws exn consoler world

subsection \<open>Own property keys\<close>






subsection \<open>Reading the persisted set and the membership check\<close>

text \<open>
  The private methods \<open>_log\<close>, \<open>_taglog\<close>, ... of the class are named \<open>priv_log\<close>,
  \<open>priv_taglog\<close>, ... here (an identifier cannot start with an underscore).
\<close>

definition priv_getLocalVerbose :: "world \<Rightarrow> string option" where
  "priv_getLocalVerbose w =
     (case getItem ''verbose'' w of
        None \<Rightarrow> None
      | Some localverbose \<Rightarrow> if localverbose = [] then None else Some (toUpperCase localverbose))"

definition priv_searchInLocalVerbose :: "world \<Rightarrow> string \<Rightarrow> exn + bool" where
  "priv_searchInLocalVerbose w v =
     (let localverbose = priv_getLocalVerbose w; refinedValue = toUpperCase v in
      case localverbose of
        None \<Rightarrow> Inr False
      | Some lv \<Rightarrow>
          (case new_RegExp refinedValue of
             Inl e \<Rightarrow> Inl e
           | Inr r \<Rightarrow> Inr (test r lv)))"

subsection \<open>Dispatch\<close>

definition priv_getStylesOption :: "string \<Rightarrow> string \<Rightarrow> string \<times> string" where
  "priv_getStylesOption identifier col =
     (''%c'' @ ''['' @ identifier @ '']'',
      ''color: white; background: '' @ col @ ''; padding:1px 3px; border-radius:2px'')"

definition priv_log :: "consoler \<Rightarrow> string \<Rightarrow> string \<Rightarrow> jsval \<Rightarrow> jsval list \<Rightarrow> world \<Rightarrow> world" where
  "priv_log obj col identifier message optionalParams w =
     (let (recognizer, style) = priv_getStylesOption identifier col in
      if isDebugModeEnable obj then
        emit ConsoleGroupEnd (emit ConsoleInfoTrace
          (emit (ConsoleGroupCollapsed recognizer style message optionalParams) w))
      else w)"

definition callCallback :: "consoler \<Rightarrow> string \<Rightarrow> jsval \<Rightarrow> world \<Rightarrow> world" where
  "callCallback obj category message w =
     (case callbackFunction obj of None \<Rightarrow> w | Some f \<Rightarrow> emit (CallbackCall f category message) w)"

definition priv_taglog ::
  "consoler \<Rightarrow> string \<Rightarrow> string \<Rightarrow> jsval \<Rightarrow> jsval list \<Rightarrow> world \<Rightarrow> unit outcome" where
  "priv_taglog obj col identifier message optionalParams w =
     (case priv_searchInLocalVerbose w (toUpperCase identifier) of
        Inl e \<Rightarrow> Throws e obj w
      | Inr t \<Rightarrow>
          if t then
            Returns () obj
              (callCallback obj (toUpperCase identifier) message
                 (priv_log obj col (''consoler:'' @ identifier) message optionalParams w))
          else Returns () obj w)"

definition log :: "consoler \<Rightarrow> jsval \<Rightarrow> jsval list \<Rightarrow> world \<Rightarrow> unit outcome" where
  "log obj message optionalParams w =
     (case priv_searchInLocalVerbose w ''INFO'' of
        Inl e \<Rightarrow> Throws e obj w
      | Inr info \<Rightarrow>
          if info then
            Returns () obj
              (callCallback obj ''INFO'' message
                 (priv_log obj ''#03a9f4'' ''consoler:INFO'' message optionalParams w))
          else Returns () obj w)"

definition warn :: "consoler \<Rightarrow> jsval \<Rightarrow> jsval list \<Rightarrow> world \<Rightarrow> unit outcome" where
  "warn obj message optionalParams w =
     (case priv_searchInLocalVerbose w ''WARN'' of
        Inl e \<Rightarrow> Throws e obj w
      | Inr wrn \<Rightarrow>
          if wrn then
            Returns () obj
              (callCallback obj ''WARN'' message
                 (priv_log obj ''#ffc107'' ''consoler:WARN'' message optionalParams w))
          else Returns () obj w)"

definition error :: "consoler \<Rightarrow> jsval \<Rightarrow> jsval list \<Rightarrow> world \<Rightarrow> unit outcome" where
  "error obj message optionalParams w =
     (case priv_searchInLocalVerbose w ''ERROR'' of
        Inl e \<Rightarrow> Throws e obj w
      | Inr err \<Rightarrow>
          if err then
            Returns () obj
              (callCallback obj ''ERROR'' message
                 (priv_log obj ''#f55656'' ''consoler:ERROR'' message optionalParams w))
          else Returns () obj w)"

definition success :: "consoler \<Rightarrow> jsval \<Rightarrow> jsval list \<Rightarrow> world \<Rightarrow> unit outcome" where
  "success obj message optionalParams w =
     (case priv_searchInLocalVerbose w ''SUCCESS'' of
        Inl e \<Rightarrow> Throws e obj w
      | Inr suc \<Rightarrow>
          if suc then
            Returns () obj
              (callCallback obj ''SUCCESS'' message
                 (priv_log obj ''#19c720'' ''consoler:SUCCESS'' message optionalParams w))
          else Returns () obj w)"

subsection \<open>The tag registry\<close>

text \<open>
  The validator \<open>isHex\<close> lives in a helper module and is a parameter here.  Mapping over the
  tags throws at the first tag whose colour it rejects; otherwise the functions are folded
  into one object, a later tag taking the place of an earlier one of the same name.
\<close>

definition priv_getTagsObject :: "(string \<Rightarrow> bool) \<Rightarrow> tag list \<Rightarrow> exn + tagFunctions" where
  "priv_getTagsObject isHex ts =
     (if \<exists>t \<in> set ts. \<not> isHex (color t) then Inl TagColorNotHex
      else Inr (foldl (\<lambda>a v. AList.update (displayName v) v a) [] ts))"

text \<open>
  Calling the function stored under a name of the tags object.  The tags object inherits
  from \<open>Object.prototype\<close>: a name that is no tag but a property found there is not a missing
  function, and what calling it does is not modelled.
\<close>

definition objectPrototypeNames :: "string list" where
  "objectPrototypeNames =
     [''constructor'', ''hasOwnProperty'', ''isPrototypeOf'', ''propertyIsEnumerable'',
      ''toLocaleString'', ''toString'', ''valueOf'', ''__proto__'', ''__defineGetter__'',
      ''__defineSetter__'', ''__lookupGetter__'', ''__lookupSetter__'']"

definition callTag ::
  "consoler \<Rightarrow> string \<Rightarrow> jsval \<Rightarrow> jsval list \<Rightarrow> world \<Rightarrow> unit outcome" where
  "callTag obj name message optionalParams w =
     (case tags obj of
        None \<Rightarrow> Throws TypeError obj w
      | Some tobj \<Rightarrow>
          (case map_of tobj name of
             None \<Rightarrow>
               if name \<in> set objectPrototypeNames then Throws Unmodelled obj w
               else Throws TypeError obj w
           | Some t \<Rightarrow> priv_taglog obj (color t) (displayName t) message optionalParams w))"

subsection \<open>Writing the persisted set\<close>

definition priv_setLocalVerbose :: "consoler \<Rightarrow> world \<Rightarrow> unit outcome" where
  "priv_setLocalVerbose obj w =
     (case verboseMode obj of
        None \<Rightarrow> Throws TypeError obj w
      | Some vm \<Rightarrow>
          Returns () (obj\<lparr>isDebugModeEnable := True\<rparr>) (setItem ''verbose'' (js_join '','' vm) w))"

definition priv_addDefaultValue :: "consoler \<Rightarrow> world \<Rightarrow> unit outcome" where
  "priv_addDefaultValue obj w =
     (if \<not> isDebugModeEnable obj \<and> isDevelopment obj then priv_setLocalVerbose obj w
      else Returns () obj w)"


subsection \<open>The configuration flow\<close>

definition priv_autorizeDeveloper :: "consoler \<Rightarrow> world \<Rightarrow> bool outcome" where
  "priv_autorizeDeveloper obj w =
     (let exceptedPassword = password obj in
      if isDevelopment obj then Returns True obj w
      else
        (let (pass, w1) = prompt ''Enter Your Development Password? '' w;
             w2 = emit (ConsoleLog (case pass of None \<Rightarrow> JNull | Some p \<Rightarrow> JString p)) w1
         in Returns (pass = Some exceptedPassword) obj w2))"









subsection \<open>Construction\<close>

definition priv_setDefaultOptions :: "consoler \<Rightarrow> world \<Rightarrow> unit outcome" where
  "priv_setDefaultOptions obj w =
     (case priv_addDefaultValue obj
             (emit (ConsoleLog (JString ''verbose now accessable!'')) (emit SetWindowVerbose w)) of
        Throws e obj1 w1 \<Rightarrow> Throws e obj1 w1
      | Returns u obj1 w1 \<Rightarrow>
          if isDebugModeEnable obj1 then
            (let obj2 = obj1\<lparr>verboseMode := map_option (js_split CHR '','') (priv_getLocalVerbose w1)\<rparr>
             in case verboseMode obj2 of
                  None \<Rightarrow> Throws TypeError obj2 w1
                | Some vm \<Rightarrow>
                    success obj2 (JString ''Now you can see : ('')
                      [JString (js_join '','' vm), JString '') logs.''] w1)
          else Returns () obj1 w1)"

text \<open>
  \<open>new Consoler({password, defaultDeveloperMode, tags, onMessageCallback})\<close>, with the value
  of \<open>process.env.NODE_ENV\<close> as \<open>nodeEnv\<close>.  The field initialisers run first, then the body.
\<close>

definition new_Consoler ::
  "(string \<Rightarrow> bool) \<Rightarrow> string option \<Rightarrow> string \<Rightarrow> string list \<Rightarrow> tag list option \<Rightarrow> nat option \<Rightarrow>
   world \<Rightarrow> unit outcome" where
  "new_Consoler isHex nodeEnv pw defaultDeveloperMode ts onMessageCallback w =
     (let obj0 = \<lparr>password = pw, callbackFunction = onMessageCallback,
                  verboseMode = Some defaultDeveloperMode,
                  isDevelopment = (nodeEnv = Some ''development''),
                  isDebugModeEnable = (priv_getLocalVerbose w \<noteq> None),
                  tags = None\<rparr>
      in case priv_setDefaultOptions obj0 w of
           Throws e obj1 w1 \<Rightarrow> Throws e obj1 w1
         | Returns u obj1 w1 \<Rightarrow>
             (case ts of
                None \<Rightarrow> Returns () obj1 w1
              | Some tgs \<Rightarrow>
                  (case priv_getTagsObject isHex tgs of
                     Inl e \<Rightarrow> Throws e obj1 w1
                   | Inr tagsObj \<Rightarrow> Returns () (obj1\<lparr>tags := Some tagsObj\<rparr>) w1)))"

text \<open>
  Modelled from the spec: the colour validator \<open>isHex\<close> of the helper module, which is not
  among the sources: an optional \<open>#\<close> followed by three or six hexadecimal digits.
\<close>

definition hexDigits :: string where
  "hexDigits = ''0123456789abcdefABCDEF''"

definition isHex_spec :: "string \<Rightarrow> bool" where
  "isHex_spec s =
     (let d = (case s of [] \<Rightarrow> [] | c # cs \<Rightarrow> if c = CHR ''#'' then cs else s) in
      (length d = 3 \<or> length d = 6) \<and> (\<forall>c \<in> set d. c \<in> set hexDigits))"

section \<open>Reading outcomes\<close>

fun worldOf :: "'a outcome \<Rightarrow> world" where
  "worldOf (Returns x obj w) = w"
| "worldOf (Throws e obj w) = w"

fun objOf :: "'a outcome \<Rightarrow> consoler" where
  "objOf (Returns x obj w) = obj"
| "objOf (Throws e obj w) = obj"

fun throws :: "'a outcome \<Rightarrow> bool" where
  "throws (Returns x obj w) = False"
| "throws (Throws e obj w) = True"

text \<open>The collaborator calls made between an earlier world and a later one.\<close>

definition newEvents :: "world \<Rightarrow> world \<Rightarrow> event list" where
  "newEvents w w' = drop (length (trace w)) (trace w')"

text \<open>
  What one accepted dispatch sends out: a collapsed group holding the label, the message, the
  extra arguments and the trace marker, to the console, and one call to the callback, when
  there is one.
\<close>

definition displayGroup :: "string \<Rightarrow> string \<Rightarrow> jsval \<Rightarrow> jsval list \<Rightarrow> event list" where
  "displayGroup col identifier message optionalParams =
     [ConsoleGroupCollapsed (''%c['' @ identifier @ '']'')
        (''color: white; background: '' @ col @ ''; padding:1px 3px; border-radius:2px'')
        message optionalParams,
      ConsoleInfoTrace, ConsoleGroupEnd]"

definition callbackCalls :: "consoler \<Rightarrow> string \<Rightarrow> jsval \<Rightarrow> event list" where
  "callbackCalls obj category message =
     (case callbackFunction obj of None \<Rightarrow> [] | Some f \<Rightarrow> [CallbackCall f category message])"

fun isPrompt :: "event \<Rightarrow> bool" where
  "isPrompt (Prompt m) = True"
| "isPrompt e = False"

fun isSetItem :: "event \<Rightarrow> bool" where
  "isSetItem (SetItem k v) = True"
| "isSetItem e = False"

section \<open>The selection step as the specification words it\<close>







section \<open>Concrete worlds and facades\<close>

definition emptyWorld :: world where
  "emptyWorld = \<lparr>localStorage = Map.empty, inputs = [], trace = []\<rparr>"

definition storedWorld :: "string \<Rightarrow> world" where
  "storedWorld v = \<lparr>localStorage = [''verbose'' \<mapsto> v], inputs = [], trace = []\<rparr>"

definition answeringWorld :: "string option list \<Rightarrow> world" where
  "answeringWorld as = \<lparr>localStorage = Map.empty, inputs = as, trace = []\<rparr>"

definition exampleFacade :: "bool \<Rightarrow> bool \<Rightarrow> tagFunctions option \<Rightarrow> consoler" where
  "exampleFacade dev dbg tgs =
     \<lparr>password = ''secret'', callbackFunction = Some 0, verboseMode = Some [],
      isDevelopment = dev, isDebugModeEnable = dbg, tags = tgs\<rparr>"

definition exampleTag :: "string \<Rightarrow> tag" where
  "exampleTag n = \<lparr>displayName = n, color = ''#0af''\<rparr>"

section \<open>Upper case\<close>

lemma upper_not_lower: "u \<in> set upperLetters \<Longrightarrow> u \<notin> set lowerLetters"
  by (auto simp: upperLetters_def lowerLetters_def)

lemma toUpperCaseChar_cases:
  "toUpperCaseChar c = c \<or> toUpperCaseChar c \<in> set upperLetters"
proof (cases "map_of (zip lowerLetters upperLetters) c")
  case None
  then show ?thesis by (simp add: toUpperCaseChar_def)
next
  case (Some u)
  then have "u \<in> set upperLetters"
    by (meson in_set_zipE map_of_SomeD)
  with Some show ?thesis by (simp add: toUpperCaseChar_def)
qed

lemma toUpperCaseChar_fix: "c \<notin> set lowerLetters \<Longrightarrow> toUpperCaseChar c = c"
proof -
  assume "c \<notin> set lowerLetters"
  then have "map_of (zip lowerLetters upperLetters) c = None"
    by (simp add: map_of_eq_None_iff lowerLetters_def upperLetters_def)
  then show ?thesis by (simp add: toUpperCaseChar_def)
qed

lemma toUpperCaseChar_idem [simp]: "toUpperCaseChar (toUpperCaseChar c) = toUpperCaseChar c"
  using toUpperCaseChar_cases [of c] upper_not_lower toUpperCaseChar_fix by metis

lemma toUpperCase_idem [simp]: "toUpperCase (toUpperCase s) = toUpperCase s"
  by (simp add: toUpperCase_def)

lemma toUpperCase_append [simp]: "toUpperCase (a @ b) = toUpperCase a @ toUpperCase b"
  by (simp add: toUpperCase_def)

lemma toUpperCase_Nil [simp]: "toUpperCase [] = []"
  by (simp add: toUpperCase_def)

lemma toUpperCase_eq_Nil [simp]: "toUpperCase s = [] \<longleftrightarrow> s = []"
  by (simp add: toUpperCase_def)


lemma upper_not_syntax: "u \<in> set upperLetters \<Longrightarrow> patternChar u \<and> u \<noteq> CHR '',''"
  by (auto simp: upperLetters_def patternChar_def unmodelledChars_def)

lemma patternChar_upper [simp]: "patternChar (toUpperCaseChar c) = patternChar c"
proof (cases "c \<in> set lowerLetters")
  case True
  then have "patternChar c" by (auto simp: lowerLetters_def patternChar_def unmodelledChars_def)
  moreover from True have "toUpperCaseChar c \<in> set upperLetters"
    by (auto simp: lowerLetters_def upperLetters_def toUpperCaseChar_def)
  ultimately show ?thesis using upper_not_syntax by blast
next
  case False
  then show ?thesis by (simp add: toUpperCaseChar_fix)
qed




section \<open>Patterns without syntax characters\<close>


lemma close_single [simp]: "close ([], sq) = mkSeq (rev sq)"
  by (simp add: close_def)







section \<open>The matcher on literal patterns\<close>




section \<open>Evaluation rules\<close>

lemmas upper_eval = toUpperCase_def toUpperCaseChar_def lowerLetters_def upperLetters_def

lemmas regexp_eval = new_RegExp_def unmodelled_def unmodelledChars_def sublist_code close_def
  quantify_def

lemmas example_eval = emptyWorld_def storedWorld_def answeringWorld_def exampleFacade_def
  exampleTag_def

lemmas store_eval = priv_searchInLocalVerbose_def priv_getLocalVerbose_def getItem_def
  setItem_def emit_def




section \<open>The membership check\<close>

lemma priv_searchInLocalVerbose_upper [simp]:
  "priv_searchInLocalVerbose w (toUpperCase c) = priv_searchInLocalVerbose w c"
  by (simp add: priv_searchInLocalVerbose_def)

text \<open>
  Claim C2.  Whenever the gating check on a category is false at dispatch time, dispatching
  that category (through a tag function or through log, warn, error or success) returns
  with the world as it was: nothing is sent to the console, the callback is not called and
  nothing is stored.
\<close>

theorem gated_dispatch_has_no_effect:
  "(priv_searchInLocalVerbose w c = Inr False \<longrightarrow>
      priv_taglog obj col c message optionalParams w = Returns () obj w) \<and>
   (priv_searchInLocalVerbose w ''INFO'' = Inr False \<longrightarrow>
      log obj message optionalParams w = Returns () obj w) \<and>
   (priv_searchInLocalVerbose w ''WARN'' = Inr False \<longrightarrow>
      warn obj message optionalParams w = Returns () obj w) \<and>
   (priv_searchInLocalVerbose w ''ERROR'' = Inr False \<longrightarrow>
      error obj message optionalParams w = Returns () obj w) \<and>
   (priv_searchInLocalVerbose w ''SUCCESS'' = Inr False \<longrightarrow>
      success obj message optionalParams w = Returns () obj w)"
  by (simp add: priv_taglog_def log_def warn_def error_def success_def)

theorem gated_dispatch_has_no_effect_witness:
  "(let w = \<lparr>localStorage = [''verbose'' \<mapsto> ''db''], inputs = [], trace = []\<rparr>;
        obj = \<lparr>password = ''secret'', callbackFunction = Some 0, verboseMode = Some [''db''],
                 isDevelopment = False, isDebugModeEnable = True, tags = None\<rparr>
    in priv_searchInLocalVerbose w ''net'' = Inr False \<and>
       priv_taglog obj ''#fff'' ''net'' (JString ''m'') [] w = Returns () obj w \<and>
       priv_searchInLocalVerbose w ''INFO'' = Inr False \<and>
       log obj (JString ''m'') [] w = Returns () obj w \<and>
       priv_searchInLocalVerbose w ''WARN'' = Inr False \<and>
       warn obj (JString ''m'') [] w = Returns () obj w \<and>
       priv_searchInLocalVerbose w ''ERROR'' = Inr False \<and>
       error obj (JString ''m'') [] w = Returns () obj w \<and>
       priv_searchInLocalVerbose w ''SUCCESS'' = Inr False \<and>
       success obj (JString ''m'') [] w = Returns () obj w)"
  using gated_dispatch_has_no_effect
    [of "\<lparr>localStorage = [''verbose'' \<mapsto> ''db''], inputs = [], trace = []\<rparr>" "''net''"
        "\<lparr>password = ''secret'', callbackFunction = Some 0, verboseMode = Some [''db''],
          isDevelopment = False, isDebugModeEnable = True, tags = None\<rparr>"
        "''#fff''" "JString ''m''" "[]"]
  by (simp add: Let_def store_eval upper_eval regexp_eval)

text \<open>
  Claim C9.  Writing the set \<open>["WARN", "ERROR"]\<close> and reading the persisted value back,
  upper-cased and split at the commas, gives \<open>["WARN", "ERROR"]\<close> again.
\<close>

theorem set_get_round_trip:
  "map_option (js_split CHR '','')
     (priv_getLocalVerbose
        (worldOf (priv_setLocalVerbose (obj\<lparr>verboseMode := Some [''WARN'', ''ERROR'']\<rparr>) w)))
   = Some [''WARN'', ''ERROR'']"
  by (simp add: priv_setLocalVerbose_def store_eval upper_eval)

section \<open>Authorisation\<close>

text \<open>
  Claim C7.  In a development environment the authorisation answers true and leaves the
  world alone: no prompt.  Otherwise it prompts exactly once, writes the answer to the
  console and answers true exactly when the answer is the configured password, character
  for character; a dismissed prompt or any other answer gives false, with no second prompt.
\<close>

theorem authorize_once:
  "(isDevelopment obj \<longrightarrow> priv_autorizeDeveloper obj w = Returns True obj w) \<and>
   (\<not> isDevelopment obj \<longrightarrow>
      (let answer = (case inputs w of [] \<Rightarrow> None | a # as \<Rightarrow> a) in
       priv_autorizeDeveloper obj w =
         Returns (answer = Some (password obj)) obj
           (w\<lparr>inputs := tl (inputs w),
              trace := trace w @
                [Prompt ''Enter Your Development Password? '',
                 ConsoleLog (case answer of None \<Rightarrow> JNull | Some p \<Rightarrow> JString p)]\<rparr>)))"
  by (cases "inputs w") (simp_all add: priv_autorizeDeveloper_def prompt_def emit_def Let_def)

theorem authorize_once_witness:
  "(let dev = \<lparr>password = ''secret'', callbackFunction = None, verboseMode = Some [''WARN''],
        isDevelopment = True, isDebugModeEnable = False, tags = None\<rparr>;
        prod = \<lparr>password = ''secret'', callbackFunction = None, verboseMode = Some [''WARN''],
        isDevelopment = False, isDebugModeEnable = False, tags = None\<rparr>
    in priv_autorizeDeveloper dev \<lparr>localStorage = Map.empty, inputs = [Some ''x''], trace = []\<rparr>
         = Returns True dev \<lparr>localStorage = Map.empty, inputs = [Some ''x''], trace = []\<rparr> \<and>
       priv_autorizeDeveloper prod
           \<lparr>localStorage = Map.empty, inputs = [Some ''secret'', Some ''warn''], trace = []\<rparr>
         = Returns True prod
             \<lparr>localStorage = Map.empty, inputs = [Some ''warn''],
               trace = [Prompt ''Enter Your Development Password? '',
                        ConsoleLog (JString ''secret'')]\<rparr> \<and>
       priv_autorizeDeveloper prod
           \<lparr>localStorage = Map.empty, inputs = [Some ''Secret'', Some ''secret''], trace = []\<rparr>
         = Returns False prod
             \<lparr>localStorage = Map.empty, inputs = [Some ''secret''],
               trace = [Prompt ''Enter Your Development Password? '',
                        ConsoleLog (JString ''Secret'')]\<rparr>)"
  using authorize_once [of "\<lparr>password = ''secret'', callbackFunction = None, verboseMode = Some [''WARN''],
        isDevelopment = True, isDebugModeEnable = False, tags = None\<rparr>"
      "\<lparr>localStorage = Map.empty, inputs = [Some ''x''], trace = []\<rparr>"]
    authorize_once [of "\<lparr>password = ''secret'', callbackFunction = None, verboseMode = Some [''WARN''],
        isDevelopment = False, isDebugModeEnable = False, tags = None\<rparr>"
      "\<lparr>localStorage = Map.empty, inputs = [Some ''secret'', Some ''warn''], trace = []\<rparr>"]
    authorize_once [of "\<lparr>password = ''secret'', callbackFunction = None, verboseMode = Some [''WARN''],
        isDevelopment = False, isDebugModeEnable = False, tags = None\<rparr>"
      "\<lparr>localStorage = Map.empty, inputs = [Some ''Secret'', Some ''secret''], trace = []\<rparr>"]
  by (simp add: Let_def)

section \<open>What dispatch and construction do to the world\<close>

lemma priv_log_eq:
  "priv_log obj col ident m ps w =
     w\<lparr>trace := trace w @ (if isDebugModeEnable obj then displayGroup col ident m ps else [])\<rparr>"
  by (simp add: priv_log_def priv_getStylesOption_def emit_def displayGroup_def)

lemma callCallback_eq:
  "callCallback obj c m w = w\<lparr>trace := trace w @ callbackCalls obj c m\<rparr>"
  by (cases "callbackFunction obj") (simp_all add: callCallback_def callbackCalls_def emit_def)

lemma isSetItem_dispatch [simp]:
  "filter isSetItem (displayGroup col ident m ps) = []"
  "filter isSetItem (callbackCalls obj c m) = []"
  "filter isPrompt (displayGroup col ident m ps) = []"
  "filter isPrompt (callbackCalls obj c m) = []"
  by (simp_all add: displayGroup_def callbackCalls_def split: option.splits)

lemma success_world:
  "worldOf (success obj m ps w) =
     w\<lparr>trace := trace w @
        (if priv_searchInLocalVerbose w ''SUCCESS'' = Inr True
         then (if isDebugModeEnable obj then displayGroup ''#19c720'' ''consoler:SUCCESS'' m ps else []) @
              callbackCalls obj ''SUCCESS'' m
         else [])\<rparr>"
  by (auto simp: success_def priv_log_eq callCallback_eq split: sum.splits)

lemma success_obj: "objOf (success obj m ps w) = obj"
  by (auto simp: success_def split: sum.splits)

lemma priv_addDefaultValue_world:
  "verboseMode obj = Some vm \<Longrightarrow>
   worldOf (priv_addDefaultValue obj w) =
     (if \<not> isDebugModeEnable obj \<and> isDevelopment obj
      then w\<lparr>localStorage := (localStorage w)(''verbose'' \<mapsto> js_join '','' vm),
             trace := trace w @ [SetItem ''verbose'' (js_join '','' vm)]\<rparr>
      else w)"
  by (simp add: priv_addDefaultValue_def priv_setLocalVerbose_def setItem_def emit_def)

lemma priv_addDefaultValue_tags:
  "tags (objOf (priv_addDefaultValue obj w)) = tags obj"
  by (simp add: priv_addDefaultValue_def priv_setLocalVerbose_def split: option.splits)

lemma priv_setDefaultOptions_tags:
  "tags (objOf (priv_setDefaultOptions obj w)) = tags obj"
proof -
  let ?w = "emit (ConsoleLog (JString ''verbose now accessable!'')) (emit SetWindowVerbose w)"
  show ?thesis
    using priv_addDefaultValue_tags [of obj ?w]
    by (cases "priv_addDefaultValue obj ?w")
       (auto simp: priv_setDefaultOptions_def Let_def success_obj split: option.splits)
qed

lemma success_world_ex:
  "\<exists>evs. worldOf (success obj m ps w) = w\<lparr>trace := trace w @ evs\<rparr> \<and>
     filter isSetItem evs = [] \<and> filter isPrompt evs = []"
  by (rule exI [of _ "if priv_searchInLocalVerbose w ''SUCCESS'' = Inr True
         then (if isDebugModeEnable obj then displayGroup ''#19c720'' ''consoler:SUCCESS'' m ps else []) @
              callbackCalls obj ''SUCCESS'' m
         else []"]) (simp add: success_world)

lemma priv_setDefaultOptions_after:
  assumes "priv_addDefaultValue obj
             (emit (ConsoleLog (JString ''verbose now accessable!'')) (emit SetWindowVerbose w))
           = Returns u o1 w1"
  shows "\<exists>evs. worldOf (priv_setDefaultOptions obj w) = w1\<lparr>trace := trace w1 @ evs\<rparr> \<and>
           filter isSetItem evs = [] \<and> filter isPrompt evs = []"
proof (cases "isDebugModeEnable o1")
  case False
  then have "worldOf (priv_setDefaultOptions obj w) = w1"
    using assms by (simp add: priv_setDefaultOptions_def)
  then show ?thesis by (intro exI [of _ "[]"]) simp
next
  case True
  show ?thesis
  proof (cases "priv_getLocalVerbose w1")
    case None
    then have "worldOf (priv_setDefaultOptions obj w) = w1"
      using assms True by (simp add: priv_setDefaultOptions_def)
    then show ?thesis by (intro exI [of _ "[]"]) simp
  next
    case (Some lv)
    then have "worldOf (priv_setDefaultOptions obj w) =
        worldOf (success (o1\<lparr>verboseMode := Some (js_split CHR '','' lv)\<rparr>)
          (JString ''Now you can see : ('')
          [JString (js_join '','' (js_split CHR '','' lv)), JString '') logs.''] w1)"
      using assms True by (simp add: priv_setDefaultOptions_def)
    then show ?thesis using success_world_ex by simp
  qed
qed

lemma priv_setDefaultOptions_seed:
  assumes "verboseMode obj = Some vm" "\<not> isDebugModeEnable obj" "isDevelopment obj"
  shows "\<exists>evs. worldOf (priv_setDefaultOptions obj w) =
           w\<lparr>localStorage := (localStorage w)(''verbose'' \<mapsto> js_join '','' vm),
              trace := trace w @ [SetWindowVerbose, ConsoleLog (JString ''verbose now accessable!''),
                SetItem ''verbose'' (js_join '','' vm)] @ evs\<rparr> \<and>
           filter isSetItem evs = [] \<and> filter isPrompt evs = []"
proof -
  let ?w = "emit (ConsoleLog (JString ''verbose now accessable!'')) (emit SetWindowVerbose w)"
  have "priv_addDefaultValue obj ?w =
        Returns () (obj\<lparr>isDebugModeEnable := True\<rparr>) (setItem ''verbose'' (js_join '','' vm) ?w)"
    using assms by (simp add: priv_addDefaultValue_def priv_setLocalVerbose_def)
  from priv_setDefaultOptions_after [OF this] obtain evs where
    evs: "worldOf (priv_setDefaultOptions obj w) =
            (setItem ''verbose'' (js_join '','' vm) ?w)
              \<lparr>trace := trace (setItem ''verbose'' (js_join '','' vm) ?w) @ evs\<rparr>"
       "filter isSetItem evs = []" "filter isPrompt evs = []"
    by blast
  show ?thesis
    by (rule exI [of _ evs]) (simp add: evs setItem_def emit_def)
qed

lemma priv_setDefaultOptions_noseed:
  assumes "isDebugModeEnable obj \<or> \<not> isDevelopment obj"
  shows "\<exists>evs. worldOf (priv_setDefaultOptions obj w) =
           w\<lparr>trace := trace w @ [SetWindowVerbose, ConsoleLog (JString ''verbose now accessable!'')]
                @ evs\<rparr> \<and>
           filter isSetItem evs = [] \<and> filter isPrompt evs = []"
proof -
  let ?w = "emit (ConsoleLog (JString ''verbose now accessable!'')) (emit SetWindowVerbose w)"
  have "priv_addDefaultValue obj ?w = Returns () obj ?w"
    using assms by (auto simp: priv_addDefaultValue_def)
  from priv_setDefaultOptions_after [OF this] obtain evs where
    evs: "worldOf (priv_setDefaultOptions obj w) = ?w\<lparr>trace := trace ?w @ evs\<rparr>"
       "filter isSetItem evs = []" "filter isPrompt evs = []"
    by blast
  show ?thesis
    by (rule exI [of _ evs]) (simp add: evs emit_def)
qed

lemma new_Consoler_world:
  "worldOf (new_Consoler isHex nodeEnv pw ddm ts cb w) =
   worldOf (priv_setDefaultOptions
     \<lparr>password = pw, callbackFunction = cb, verboseMode = Some ddm,
       isDevelopment = (nodeEnv = Some ''development''),
       isDebugModeEnable = (priv_getLocalVerbose w \<noteq> None), tags = None\<rparr> w)"
proof -
  let ?obj0 = "\<lparr>password = pw, callbackFunction = cb, verboseMode = Some ddm,
       isDevelopment = (nodeEnv = Some ''development''),
       isDebugModeEnable = (priv_getLocalVerbose w \<noteq> None), tags = None\<rparr>"
  show ?thesis
    by (cases "priv_setDefaultOptions ?obj0 w")
       (simp_all add: new_Consoler_def split: option.splits sum.splits)
qed

section \<open>Construction\<close>

text \<open>
  Claim C6.  When some tag of the list given to the constructor has a colour that the
  validator rejects, building the tags object throws, so construction throws, and the object
  under construction has no tags object: calling a tag function of it, under any name,
  fails.
\<close>

theorem invalid_tag_color_fails_construction:
  assumes "\<exists>t \<in> set ts. \<not> isHex (color t)"
  shows "priv_getTagsObject isHex ts = Inl TagColorNotHex \<and>
         throws (new_Consoler isHex nodeEnv pw defaultDeveloperMode (Some ts) cb w) \<and>
         tags (objOf (new_Consoler isHex nodeEnv pw defaultDeveloperMode (Some ts) cb w)) = None \<and>
         callTag (objOf (new_Consoler isHex nodeEnv pw defaultDeveloperMode (Some ts) cb w))
             name message optionalParams w' =
           Throws TypeError
             (objOf (new_Consoler isHex nodeEnv pw defaultDeveloperMode (Some ts) cb w)) w'"
proof -
  let ?obj0 = "\<lparr>password = pw, callbackFunction = cb, verboseMode = Some defaultDeveloperMode,
                 isDevelopment = (nodeEnv = Some ''development''),
                 isDebugModeEnable = (priv_getLocalVerbose w \<noteq> None), tags = None\<rparr>"
  let ?r = "new_Consoler isHex nodeEnv pw defaultDeveloperMode (Some ts) cb w"
  have bad: "priv_getTagsObject isHex ts = Inl TagColorNotHex"
    using assms by (simp add: priv_getTagsObject_def)
  have fails: "throws ?r \<and> tags (objOf ?r) = None"
    using bad priv_setDefaultOptions_tags [of ?obj0 w]
    by (cases "priv_setDefaultOptions ?obj0 w") (simp_all add: new_Consoler_def)
  then have "callTag (objOf ?r) name message optionalParams w' = Throws TypeError (objOf ?r) w'"
    by (simp add: callTag_def)
  with bad fails show ?thesis by simp
qed

theorem invalid_tag_color_fails_construction_witness:
  "(\<exists>t \<in> set [\<lparr>displayName = ''net'', color = ''#0af''\<rparr>, \<lparr>displayName = ''db'', color = ''not-a-color''\<rparr>]. \<not> isHex_spec (color t)) \<and>
   priv_getTagsObject isHex_spec [\<lparr>displayName = ''net'', color = ''#0af''\<rparr>, \<lparr>displayName = ''db'', color = ''not-a-color''\<rparr>] = Inl TagColorNotHex \<and>
   throws (new_Consoler isHex_spec (Some ''production'') ''secret'' [''WARN''] (Some [\<lparr>displayName = ''net'', color = ''#0af''\<rparr>, \<lparr>displayName = ''db'', color = ''not-a-color''\<rparr>])
     None emptyWorld) \<and>
   tags (objOf (new_Consoler isHex_spec (Some ''production'') ''secret'' [''WARN''] (Some [\<lparr>displayName = ''net'', color = ''#0af''\<rparr>, \<lparr>displayName = ''db'', color = ''not-a-color''\<rparr>])
     None emptyWorld)) = None \<and>
   callTag (objOf (new_Consoler isHex_spec (Some ''production'') ''secret'' [''WARN''] (Some [\<lparr>displayName = ''net'', color = ''#0af''\<rparr>, \<lparr>displayName = ''db'', color = ''not-a-color''\<rparr>])
       None emptyWorld)) ''net'' (JString ''m'') [] emptyWorld =
     Throws TypeError
       (objOf (new_Consoler isHex_spec (Some ''production'') ''secret'' [''WARN''] (Some [\<lparr>displayName = ''net'', color = ''#0af''\<rparr>, \<lparr>displayName = ''db'', color = ''not-a-color''\<rparr>])
          None emptyWorld)) emptyWorld"
  using invalid_tag_color_fails_construction
    [of "[\<lparr>displayName = ''net'', color = ''#0af''\<rparr>, \<lparr>displayName = ''db'', color = ''not-a-color''\<rparr>]"
        isHex_spec "Some ''production''" "''secret''" "[''WARN'']" None emptyWorld
        "''net''" "JString ''m''" "[]" emptyWorld]
  by (simp add: isHex_spec_def hexDigits_def)

text \<open>
  Claim C8.  Construction in a development environment with no persisted set (no stored
  value, or the empty one) stores the comma-joined \<open>defaultDeveloperMode\<close> under the key and
  makes that one write only; in every other case it makes no write and the store stays as it
  was.  In neither case does construction prompt or use up an operator answer.  This holds
  whether construction then returns or throws.
\<close>

theorem auto_seed_in_development:
  "(let w' = worldOf (new_Consoler isHex nodeEnv pw defaultDeveloperMode ts cb w) in
    (nodeEnv = Some ''development'' \<and> priv_getLocalVerbose w = None \<longrightarrow>
       localStorage w' = (localStorage w)(''verbose'' \<mapsto> js_join '','' defaultDeveloperMode) \<and>
       filter isSetItem (newEvents w w') = [SetItem ''verbose'' (js_join '','' defaultDeveloperMode)] \<and>
       filter isPrompt (newEvents w w') = [] \<and> inputs w' = inputs w) \<and>
    (\<not> (nodeEnv = Some ''development'' \<and> priv_getLocalVerbose w = None) \<longrightarrow>
       localStorage w' = localStorage w \<and>
       filter isSetItem (newEvents w w') = [] \<and>
       filter isPrompt (newEvents w w') = [] \<and> inputs w' = inputs w))"
proof (cases "nodeEnv = Some ''development'' \<and> priv_getLocalVerbose w = None")
  case True
  let ?obj0 = "\<lparr>password = pw, callbackFunction = cb, verboseMode = Some defaultDeveloperMode,
       isDevelopment = (nodeEnv = Some ''development''),
       isDebugModeEnable = (priv_getLocalVerbose w \<noteq> None), tags = None\<rparr>"
  from True have "verboseMode ?obj0 = Some defaultDeveloperMode" "\<not> isDebugModeEnable ?obj0"
    "isDevelopment ?obj0" by simp_all
  from priv_setDefaultOptions_seed [OF this, of w] obtain evs where
    "worldOf (priv_setDefaultOptions ?obj0 w) =
           w\<lparr>localStorage := (localStorage w)(''verbose'' \<mapsto> js_join '','' defaultDeveloperMode),
              trace := trace w @ [SetWindowVerbose, ConsoleLog (JString ''verbose now accessable!''),
                SetItem ''verbose'' (js_join '','' defaultDeveloperMode)] @ evs\<rparr>"
    "filter isSetItem evs = []" "filter isPrompt evs = []"
    by blast
  with True show ?thesis
    by (simp add: new_Consoler_world newEvents_def)
next
  case False
  let ?obj0 = "\<lparr>password = pw, callbackFunction = cb, verboseMode = Some defaultDeveloperMode,
       isDevelopment = (nodeEnv = Some ''development''),
       isDebugModeEnable = (priv_getLocalVerbose w \<noteq> None), tags = None\<rparr>"
  from False have "isDebugModeEnable ?obj0 \<or> \<not> isDevelopment ?obj0" by auto
  from priv_setDefaultOptions_noseed [OF this, of w] obtain evs where
    "worldOf (priv_setDefaultOptions ?obj0 w) =
           w\<lparr>trace := trace w @ [SetWindowVerbose, ConsoleLog (JString ''verbose now accessable!'')]
                @ evs\<rparr>"
    "filter isSetItem evs = []" "filter isPrompt evs = []"
    by blast
  with False show ?thesis
    by (simp add: new_Consoler_world newEvents_def)
qed

theorem auto_seed_in_development_witness:
  "(let w = \<lparr>localStorage = Map.empty, inputs = [Some ''x''], trace = []\<rparr>;
        w' = worldOf (new_Consoler isHex_spec (Some ''development'') ''secret'' [''WARN'', ''net'']
               None None w)
    in priv_getLocalVerbose w = None \<and>
       localStorage w' = [''verbose'' \<mapsto> ''WARN,net''] \<and>
       filter isSetItem (newEvents w w') = [SetItem ''verbose'' ''WARN,net''] \<and>
       filter isPrompt (newEvents w w') = [] \<and> inputs w' = [Some ''x'']) \<and>
   (let w = \<lparr>localStorage = [''verbose'' \<mapsto> ''error''], inputs = [Some ''x''], trace = []\<rparr>;
        w' = worldOf (new_Consoler isHex_spec (Some ''development'') ''secret'' [''WARN'', ''net'']
               None None w)
    in priv_getLocalVerbose w \<noteq> None \<and>
       localStorage w' = [''verbose'' \<mapsto> ''error''] \<and>
       filter isSetItem (newEvents w w') = [] \<and>
       filter isPrompt (newEvents w w') = [] \<and> inputs w' = [Some ''x'']) \<and>
   (let w = \<lparr>localStorage = Map.empty, inputs = [Some ''x''], trace = []\<rparr>;
        w' = worldOf (new_Consoler isHex_spec (Some ''production'') ''secret'' [''WARN'', ''net'']
               None None w)
    in localStorage w' = Map.empty \<and>
       filter isSetItem (newEvents w w') = [] \<and>
       filter isPrompt (newEvents w w') = [] \<and> inputs w' = [Some ''x''])"
  using auto_seed_in_development [of isHex_spec "Some ''development''" "''secret''" "[''WARN'', ''net'']"
      None None "\<lparr>localStorage = Map.empty, inputs = [Some ''x''], trace = []\<rparr>"]
    auto_seed_in_development [of isHex_spec "Some ''development''" "''secret''" "[''WARN'', ''net'']"
      None None "\<lparr>localStorage = [''verbose'' \<mapsto> ''error''], inputs = [Some ''x''], trace = []\<rparr>"]
    auto_seed_in_development [of isHex_spec "Some ''production''" "''secret''" "[''WARN'', ''net'']"
      None None "\<lparr>localStorage = Map.empty, inputs = [Some ''x''], trace = []\<rparr>"]
  by (simp add: Let_def priv_getLocalVerbose_def getItem_def)

section \<open>Accepted dispatch\<close>








section \<open>Substring match and its limits\<close>




section \<open>The query is a pattern\<close>

lemma lineTerminator_upper [simp]: "lineTerminator (toUpperCaseChar c) = lineTerminator c"
proof (cases "c \<in> set lowerLetters")
  case True
  then have "\<not> lineTerminator c" by (auto simp: lowerLetters_def lineTerminator_def)
  moreover from True have "toUpperCaseChar c \<in> set upperLetters"
    by (auto simp: lowerLetters_def upperLetters_def toUpperCaseChar_def)
  then have "\<not> lineTerminator (toUpperCaseChar c)"
    by (auto simp: upperLetters_def lineTerminator_def)
  ultimately show ?thesis by simp
next
  case False
  then show ?thesis by (simp add: toUpperCaseChar_fix)
qed

lemma test_Dot: "test Dot s \<longleftrightarrow> (\<exists>c \<in> set s. \<not> lineTerminator c)"
  by (induction s) auto

lemma test_empty_group: "test (Group Empty) s"
  by (cases s) auto

lemma new_RegExp_dot: "new_RegExp ''.'' = Inr Dot"
  by (simp add: regexp_eval)

lemma new_RegExp_empty_group: "new_RegExp ''()'' = Inr (Group Empty)"
  by (simp add: regexp_eval)

lemma upper_dot: "toUpperCase ''.'' = ''.''" "toUpperCase ''()'' = ''()''"
  by (simp_all add: upper_eval)

text \<open>
  Claim C10, as the code has it.  The membership check compiles the upper-cased query as a
  pattern.  The query \<open>()\<close> is answered true for every non-empty persisted value.  The query
  \<open>.\<close> is answered true for every ASCII persisted value with a character that is not a line
  terminator, and false for a non-empty ASCII persisted value made of line terminators only.
  Neither query occurs in the persisted value \<open>WARN,ERROR\<close>, for which both are answered
  true.
\<close>

theorem query_is_a_pattern:
  "(getItem ''verbose'' w = Some v \<and> v \<noteq> [] \<longrightarrow>
      priv_searchInLocalVerbose w ''()'' = Inr True) \<and>
   (getItem ''verbose'' w = Some v \<and> ascii v \<and> (\<exists>c \<in> set v. \<not> lineTerminator c) \<longrightarrow>
      priv_searchInLocalVerbose w ''.'' = Inr True) \<and>
   (getItem ''verbose'' w = Some v \<and> ascii v \<and> v \<noteq> [] \<and> (\<forall>c \<in> set v. lineTerminator c) \<longrightarrow>
      priv_searchInLocalVerbose w ''.'' = Inr False)"
proof (intro conjI impI)
  assume "getItem ''verbose'' w = Some v \<and> v \<noteq> []"
  then have "priv_getLocalVerbose w = Some (toUpperCase v)"
    by (simp add: priv_getLocalVerbose_def)
  then show "priv_searchInLocalVerbose w ''()'' = Inr True"
    by (simp add: priv_searchInLocalVerbose_def upper_dot new_RegExp_empty_group test_empty_group)
next
  assume a: "getItem ''verbose'' w = Some v \<and> ascii v \<and> (\<exists>c \<in> set v. \<not> lineTerminator c)"
  then have "v \<noteq> []" by auto
  with a have "priv_getLocalVerbose w = Some (toUpperCase v)"
    by (simp add: priv_getLocalVerbose_def)
  moreover from a have "\<exists>c \<in> set (toUpperCase v). \<not> lineTerminator c"
    by (simp add: toUpperCase_def)
  ultimately show "priv_searchInLocalVerbose w ''.'' = Inr True"
    by (simp add: priv_searchInLocalVerbose_def upper_dot new_RegExp_dot test_Dot)
next
  assume a: "getItem ''verbose'' w = Some v \<and> ascii v \<and> v \<noteq> [] \<and> (\<forall>c \<in> set v. lineTerminator c)"
  then have "priv_getLocalVerbose w = Some (toUpperCase v)"
    by (simp add: priv_getLocalVerbose_def)
  moreover from a have "\<forall>c \<in> set (toUpperCase v). lineTerminator c"
    by (simp add: toUpperCase_def)
  ultimately show "priv_searchInLocalVerbose w ''.'' = Inr False"
    by (simp add: priv_searchInLocalVerbose_def upper_dot new_RegExp_dot test_Dot)
qed

theorem query_is_a_pattern_witness:
  "getItem ''verbose'' (storedWorld ''WARN,ERROR'') = Some ''WARN,ERROR'' \<and>
   ''WARN,ERROR'' \<noteq> [] \<and> ascii ''WARN,ERROR'' \<and>
   (\<exists>c \<in> set ''WARN,ERROR''. \<not> lineTerminator c) \<and>
   \<not> sublist ''()'' ''WARN,ERROR'' \<and> \<not> sublist ''.'' ''WARN,ERROR'' \<and>
   priv_searchInLocalVerbose (storedWorld ''WARN,ERROR'') ''()'' = Inr True \<and>
   priv_searchInLocalVerbose (storedWorld ''WARN,ERROR'') ''.'' = Inr True \<and>
   getItem ''verbose'' (storedWorld [CHR 0x0D, CHR 0x0A]) = Some [CHR 0x0D, CHR 0x0A] \<and>
   ascii [CHR 0x0D, CHR 0x0A] \<and> list_all lineTerminator [CHR 0x0D, CHR 0x0A] \<and>
   priv_searchInLocalVerbose (storedWorld [CHR 0x0D, CHR 0x0A]) ''()'' = Inr True \<and>
   priv_searchInLocalVerbose (storedWorld [CHR 0x0D, CHR 0x0A]) ''.'' = Inr False"
  using query_is_a_pattern [of "storedWorld ''WARN,ERROR''" "''WARN,ERROR''"]
    query_is_a_pattern [of "storedWorld [CHR 0x0D, CHR 0x0A]" "[CHR 0x0D, CHR 0x0A]"]
  by (simp add: example_eval getItem_def lineTerminator_def sublist_code ascii_def asciiChar_def)

text \<open>
  The query \<open>.\<close> is not answered true whenever a non-empty persisted value exists: a
  persisted value that is a single line feed is not matched by it.
\<close>

theorem query_is_a_pattern_counterexample:
  "getItem ''verbose'' (storedWorld [CHR 0x0A]) = Some [CHR 0x0A] \<and>
   [CHR 0x0A] \<noteq> ([] :: string) \<and>
   priv_searchInLocalVerbose (storedWorld [CHR 0x0A]) ''.'' = Inr False"
  by (simp add: example_eval store_eval upper_eval regexp_eval lineTerminator_def)

section \<open>What is written and what is read\<close>




















section \<open>The pattern of the known categories\<close>


























end
